theory Spec2Isabelle
  imports Complex_Main "HOL-Library.Multiset" "HOL-Library.Log_Nat" "HOL-Library.Product_Lexorder"
begin

section \<open>The budget calculator of \<^verbatim>\<open>budget.py\<close>\<close>

text \<open>
  \<^verbatim>\<open>budget.py\<close> is one Streamlit script. Its state is the pair of lists
  \<^verbatim>\<open>st.session_state.expenses\<close> and \<^verbatim>\<open>st.session_state.income_sources\<close>; three
  button handlers in the sidebar change it, and everything below line 105 is recomputed
  from it on each run of the script.

  Amounts come from \<^verbatim>\<open>st.number_input\<close> and are Python floats, that is IEEE doubles.
  An entry holds the amount the widget gave, a finite double, as the rational number it
  is. Whatever the script computes from the amounts is a \<open>pyfloat\<close>: the result of each
  operation is rounded to the nearest double, overflows to an infinity, or is not a
  number.
\<close>

subsection \<open>Data\<close>

text \<open>The eleven entries of \<^verbatim>\<open>expense_categories\<close> (lines 68-80), in the script's order.\<close>

datatype category =
  Housing | Utilities | Transportation | Food_Groceries | Insurance | Debt_Payments
  | Entertainment | Subscriptions | Healthcare | Savings | Other

fun category_label :: "category \<Rightarrow> string" where
  "category_label Housing = ''Housing (Rent/Mortgage)''"
| "category_label Utilities = ''Utilities''"
| "category_label Transportation = ''Transportation''"
| "category_label Food_Groceries = ''Food & Groceries''"
| "category_label Insurance = ''Insurance''"
| "category_label Debt_Payments = ''Debt Payments''"
| "category_label Entertainment = ''Entertainment''"
| "category_label Subscriptions = ''Subscriptions''"
| "category_label Healthcare = ''Healthcare''"
| "category_label Savings = ''Savings''"
| "category_label Other = ''Other''"

text \<open>The options of the priority slider (line 85), in the slider's order.\<close>

datatype priority = Low | Medium | High | Critical

fun priority_label :: "priority \<Rightarrow> string" where
  "priority_label Low = ''Low''"
| "priority_label Medium = ''Medium''"
| "priority_label High = ''High''"
| "priority_label Critical = ''Critical''"

text \<open>The dictionaries appended at lines 57-60 and 89-94.\<close>

record income_entry =
  income_name :: string
  income_amount :: rat

record expense_entry =
  expense_category :: category
  expense_name :: string
  expense_amount :: rat
  expense_priority :: priority

record session_state =
  expenses :: "expense_entry list"
  income_sources :: "income_entry list"

text \<open>Lines 38-41: both lists start empty.\<close>

definition init_state :: session_state where
  "init_state = \<lparr>expenses = [], income_sources = []\<rparr>"

subsection \<open>The sidebar's handlers\<close>

text \<open>
  Lines 55-62. \<^verbatim>\<open>if income_name and income_amount > 0\<close>: a Python string is true when
  it is not empty. When the test fails nothing happens: there is no exception and no
  message, the state stays as it was.
\<close>

definition add_income :: "string \<Rightarrow> rat \<Rightarrow> session_state \<Rightarrow> session_state" where
  "add_income nm amt s =
     (if nm \<noteq> [] \<and> amt > 0
      then s\<lparr>income_sources := income_sources s @ [\<lparr>income_name = nm, income_amount = amt\<rparr>]\<rparr>
      else s)"

text \<open>Lines 87-96.\<close>

definition add_expense ::
  "category \<Rightarrow> string \<Rightarrow> rat \<Rightarrow> priority \<Rightarrow> session_state \<Rightarrow> session_state" where
  "add_expense cat nm amt pri s =
     (if nm \<noteq> [] \<and> amt > 0
      then s\<lparr>expenses := expenses s @
             [\<lparr>expense_category = cat, expense_name = nm,
               expense_amount = amt, expense_priority = pri\<rparr>]\<rparr>
      else s)"

text \<open>
  Lines 100-103: two assignments, one after the other, then \<^verbatim>\<open>st.rerun()\<close>. Nothing is
  drawn from the state between them; the next run of the script sees the result.
\<close>

definition clear_all :: "session_state \<Rightarrow> session_state" where
  "clear_all s = (let s1 = s\<lparr>expenses := []\<rparr>; s2 = s1\<lparr>income_sources := []\<rparr> in s2)"

text \<open>One click in the sidebar, and a session as the list of its clicks.\<close>

datatype event =
  Add_Income string rat
  | Add_Expense category string rat priority
  | Clear_All_Data

fun handle :: "event \<Rightarrow> session_state \<Rightarrow> session_state" where
  "handle (Add_Income nm amt) s = add_income nm amt s"
| "handle (Add_Expense cat nm amt pri) s = add_expense cat nm amt pri s"
| "handle Clear_All_Data s = clear_all s"

fun run :: "event list \<Rightarrow> session_state \<Rightarrow> session_state" where
  "run [] s = s"
| "run (ev # evs) s = run evs (handle ev s)"




subsection \<open>Python floats\<close>

text \<open>
  A double is a finite rational of the form \<open>m * 2 ^ e\<close> with \<open>\<bar>m\<bar> < 2 ^ 53\<close> and
  \<open>- 1074 \<le> e \<le> 971\<close>, or one of the two infinities, or not a number. The sign of
  zero is not represented: no comparison of the script sees it.
\<close>

datatype pyfloat = Fin rat | PInf | NInf | NaN

instantiation pyfloat :: zero
begin

definition zero_pyfloat :: pyfloat where
  "zero_pyfloat = Fin 0"

instance ..

end

definition pow2 :: "int \<Rightarrow> rat" where
  "pow2 e = (if 0 \<le> e then 2 ^ nat e else 1 / 2 ^ nat (- e))"

text \<open>The nearest integer, a tie going to the even one.\<close>

definition round_half_even :: "rat \<Rightarrow> int" where
  "round_half_even x =
     (let f = \<lfloor>x\<rfloor>; d = x - of_int f
      in if d < 1 / 2 then f else if 1 / 2 < d then f + 1
         else if even f then f else f + 1)"

text \<open>For \<open>0 < x\<close>, the integer \<open>k\<close> with \<open>2 ^ k \<le> x < 2 ^ (k + 1)\<close>.\<close>

definition ilog2 :: "rat \<Rightarrow> int" where
  "ilog2 x = (if 1 \<le> x then bitlen \<lfloor>x\<rfloor> - 1 else - bitlen (\<lceil>1 / x\<rceil> - 1))"

text \<open>
  Rounding of an exact result to a double, to nearest and ties to even: 53 significant
  bits, the exponent of the last bit no lower than -1074 (so small results are rounded as
  subnormals), and an infinity when the rounded value reaches \<open>2 ^ 1024\<close>.
\<close>

definition round_double :: "rat \<Rightarrow> pyfloat" where
  "round_double x =
     (if x = 0 then Fin 0
      else let a = \<bar>x\<bar>;
               e = max (ilog2 a - 52) (- 1074);
               v = of_int (round_half_even (a / pow2 e)) * pow2 e
           in if pow2 1024 \<le> v then (if 0 < x then PInf else NInf)
              else Fin (if 0 < x then v else - v))"

text \<open>The rationals that are doubles: what a number input can hold.\<close>

definition is_double :: "rat \<Rightarrow> bool" where
  "is_double x = (round_double x = Fin x)"

fun fadd :: "pyfloat \<Rightarrow> pyfloat \<Rightarrow> pyfloat" where
  "fadd (Fin a) (Fin b) = round_double (a + b)"
| "fadd NaN y = NaN"
| "fadd x NaN = NaN"
| "fadd PInf NInf = NaN"
| "fadd NInf PInf = NaN"
| "fadd PInf y = PInf"
| "fadd NInf y = NInf"
| "fadd x PInf = PInf"
| "fadd x NInf = NInf"

fun fneg :: "pyfloat \<Rightarrow> pyfloat" where
  "fneg (Fin a) = Fin (- a)"
| "fneg PInf = NInf"
| "fneg NInf = PInf"
| "fneg NaN = NaN"

definition fsub :: "pyfloat \<Rightarrow> pyfloat \<Rightarrow> pyfloat" where
  "fsub x y = fadd x (fneg y)"

fun fmul :: "pyfloat \<Rightarrow> pyfloat \<Rightarrow> pyfloat" where
  "fmul (Fin a) (Fin b) = round_double (a * b)"
| "fmul NaN y = NaN"
| "fmul x NaN = NaN"
| "fmul PInf (Fin b) = (if b = 0 then NaN else if 0 < b then PInf else NInf)"
| "fmul NInf (Fin b) = (if b = 0 then NaN else if 0 < b then NInf else PInf)"
| "fmul (Fin a) PInf = (if a = 0 then NaN else if 0 < a then PInf else NInf)"
| "fmul (Fin a) NInf = (if a = 0 then NaN else if 0 < a then NInf else PInf)"
| "fmul PInf PInf = PInf"
| "fmul PInf NInf = NInf"
| "fmul NInf PInf = NInf"
| "fmul NInf NInf = PInf"

text \<open>
  Python's \<^verbatim>\<open>/\<close> raises \<^verbatim>\<open>ZeroDivisionError\<close> on a zero divisor. The script divides
  only by a total it has just tested to be greater than 0 (lines 123, 154 and 295-296);
  here a zero divisor gives \<open>NaN\<close>.
\<close>

fun fdiv :: "pyfloat \<Rightarrow> pyfloat \<Rightarrow> pyfloat" where
  "fdiv (Fin a) (Fin b) = (if b = 0 then NaN else round_double (a / b))"
| "fdiv NaN y = NaN"
| "fdiv x NaN = NaN"
| "fdiv (Fin a) y = Fin 0"
| "fdiv PInf (Fin b) = (if b = 0 then NaN else if 0 < b then PInf else NInf)"
| "fdiv NInf (Fin b) = (if b = 0 then NaN else if 0 < b then NInf else PInf)"
| "fdiv x y = NaN"

fun fabs :: "pyfloat \<Rightarrow> pyfloat" where
  "fabs (Fin a) = Fin \<bar>a\<bar>"
| "fabs PInf = PInf"
| "fabs NInf = PInf"
| "fabs NaN = NaN"

text \<open>\<^verbatim>\<open>x < y\<close> and \<^verbatim>\<open>x <= y\<close>: false whenever an operand is not a number.\<close>

fun flt :: "pyfloat \<Rightarrow> pyfloat \<Rightarrow> bool" where
  "flt (Fin a) (Fin b) = (a < b)"
| "flt NaN y = False"
| "flt x NaN = False"
| "flt x NInf = False"
| "flt PInf y = False"
| "flt NInf y = True"
| "flt (Fin a) PInf = True"

definition fle :: "pyfloat \<Rightarrow> pyfloat \<Rightarrow> bool" where
  "fle x y = (flt x y \<or> (x = y \<and> x \<noteq> NaN))"

text \<open>
  Python's built-in \<^verbatim>\<open>sum\<close>: it starts from the integer 0 and adds the items from the
  left, one rounded addition for each.
\<close>

definition py_sum :: "pyfloat list \<Rightarrow> pyfloat" where
  "py_sum xs = foldl fadd 0 xs"

text \<open>The literals \<^verbatim>\<open>0.50\<close>, \<^verbatim>\<open>0.30\<close> and \<^verbatim>\<open>0.20\<close>: the doubles nearest to them.\<close>

definition lit_0_50 :: pyfloat where
  "lit_0_50 = round_double (50 / 100)"

definition lit_0_30 :: pyfloat where
  "lit_0_30 = round_double (30 / 100)"

definition lit_0_20 :: pyfloat where
  "lit_0_20 = round_double (20 / 100)"

subsection \<open>Totals (lines 109-111)\<close>

definition total_income :: "session_state \<Rightarrow> pyfloat" where
  "total_income s = py_sum (map (\<lambda>item. Fin (income_amount item)) (income_sources s))"

definition total_expenses :: "session_state \<Rightarrow> pyfloat" where
  "total_expenses s = py_sum (map (\<lambda>item. Fin (expense_amount item)) (expenses s))"

definition remaining_balance :: "session_state \<Rightarrow> pyfloat" where
  "remaining_balance s = fsub (total_income s) (total_expenses s)"

subsection \<open>Grouped sums\<close>

text \<open>
  The sum of one group as pandas computes it for a float column: a running sum with a
  compensation term (Kahan's summation), the compensation reset to 0 when it is not a
  number.
\<close>

definition kahan_step :: "pyfloat \<times> pyfloat \<Rightarrow> pyfloat \<Rightarrow> pyfloat \<times> pyfloat" where
  "kahan_step acc val =
     (let sumx = fst acc; compensation = snd acc;
          y = fsub val compensation;
          t = fadd sumx y;
          c = fsub (fsub t sumx) y
      in (t, if c = NaN then 0 else c))"

definition group_sum :: "pyfloat list \<Rightarrow> pyfloat" where
  "group_sum vals = fst (foldl kahan_step (0, 0) vals)"

text \<open>
  \<^verbatim>\<open>expenses_df.groupby(col)['amount'].sum()\<close>: one row for each key that occurs, the
  rows in the sorted order of the keys, each row the sum of the amounts under its key, in
  the order of the expenses. The keys are the label strings, so their sorted order is the
  alphabetical one, given here as a list.
\<close>

definition groupby_sum ::
  "'k list \<Rightarrow> (expense_entry \<Rightarrow> 'k) \<Rightarrow> expense_entry list \<Rightarrow> ('k \<times> pyfloat) list" where
  "groupby_sum sorted_keys col es =
     map (\<lambda>k. (k, group_sum (map (\<lambda>e. Fin (expense_amount e)) (filter (\<lambda>e. col e = k) es))))
       (filter (\<lambda>k. k \<in> set (map col es)) sorted_keys)"

definition sorted_priority_labels :: "priority list" where
  "sorted_priority_labels = [Critical, High, Low, Medium]"

definition sorted_category_labels :: "category list" where
  "sorted_category_labels =
     [Debt_Payments, Entertainment, Food_Groceries, Healthcare, Housing, Insurance,
      Other, Savings, Subscriptions, Transportation, Utilities]"

text \<open>
  Tab 1, lines 150-157. The grouped sums are sorted by \<^verbatim>\<open>sort_values(ascending=False)\<close>,
  that is by amount, largest first, a row that is not a number last: pandas reverses the
  rows, sorts them ascending and reverses again, so rows of equal amount keep the order of
  the grouping. Without expenses the tab writes "No expenses added yet" and computes
  nothing.
\<close>

fun sort_rank :: "pyfloat \<Rightarrow> int \<times> rat" where
  "sort_rank NaN = (- 2, 0)"
| "sort_rank NInf = (- 1, 0)"
| "sort_rank (Fin a) = (0, a)"
| "sort_rank PInf = (1, 0)"

definition sort_values_descending :: "('k \<times> pyfloat) list \<Rightarrow> ('k \<times> pyfloat) list" where
  "sort_values_descending rows = rev (sort_key (\<lambda>row. sort_rank (snd row)) (rev rows))"

definition priority_summary_tab1 :: "session_state \<Rightarrow> (priority \<times> pyfloat) list option" where
  "priority_summary_tab1 s =
     (if expenses s \<noteq> []
      then Some (sort_values_descending
             (groupby_sum sorted_priority_labels expense_priority (expenses s)))
      else None)"

text \<open>Tab 2, line 169: the pie chart's rows.\<close>

definition category_summary :: "session_state \<Rightarrow> (category \<times> pyfloat) list option" where
  "category_summary s =
     (if expenses s \<noteq> []
      then Some (groupby_sum sorted_category_labels expense_category (expenses s))
      else None)"

text \<open>
  Tab 2, lines 178-183: the bar chart's rows, sorted by the position of the priority in
  \<^verbatim>\<open>priority_order = ['Critical', 'High', 'Medium', 'Low']\<close>.
\<close>

definition priority_order :: "priority list" where
  "priority_order = [Critical, High, Medium, Low]"

fun priority_code :: "priority \<Rightarrow> nat" where
  "priority_code Critical = 0"
| "priority_code High = 1"
| "priority_code Medium = 2"
| "priority_code Low = 3"

definition priority_summary_tab2 :: "session_state \<Rightarrow> (priority \<times> pyfloat) list option" where
  "priority_summary_tab2 s =
     (if expenses s \<noteq> []
      then Some (sort_key (\<lambda>row. priority_code (fst row))
             (groupby_sum sorted_priority_labels expense_priority (expenses s)))
      else None)"

text \<open>The rows of a chart or summary that is not drawn: none.\<close>

fun rows_of :: "('k \<times> pyfloat) list option \<Rightarrow> ('k \<times> pyfloat) list" where
  "rows_of None = []"
| "rows_of (Some rows) = rows"

subsection \<open>Tab 3: recommendations (lines 221-304)\<close>

record allocation =
  needs_budget :: pyfloat
  wants_budget :: pyfloat
  savings_budget :: pyfloat

text \<open>Lines 224-228, under \<^verbatim>\<open>if total_income > 0\<close>.\<close>

definition budget_rule_502030 :: "session_state \<Rightarrow> allocation option" where
  "budget_rule_502030 s =
     (if flt 0 (total_income s)
      then Some \<lparr>needs_budget = fmul (total_income s) lit_0_50,
                 wants_budget = fmul (total_income s) lit_0_30,
                 savings_budget = fmul (total_income s) lit_0_20\<rparr>
      else None)"

text \<open>
  Lines 264-292. Each message carries the numbers it prints: the deficit prints
  \<^verbatim>\<open>abs(remaining_balance)\<close>, the low savings rate prints the balance and the 20 percent
  target, the good health prints the balance.
\<close>

datatype assessment =
  Budget_Deficit pyfloat
  | Low_Savings_Rate pyfloat pyfloat
  | Good_Budget_Health pyfloat

definition health_assessment :: "session_state \<Rightarrow> assessment option" where
  "health_assessment s =
     (if flt 0 (total_income s)
      then (let savings = fmul (total_income s) lit_0_20 in
            if flt (remaining_balance s) 0 then Some (Budget_Deficit (fabs (remaining_balance s)))
            else if flt (remaining_balance s) savings
              then Some (Low_Savings_Rate (remaining_balance s) savings)
            else Some (Good_Budget_Health (remaining_balance s)))
      else None)"

text \<open>
  Lines 295-302, inside the branch \<^verbatim>\<open>total_income > 0\<close> and under their own test
  \<^verbatim>\<open>total_expenses > 0\<close>. The factor \<^verbatim>\<open>100\<close> is an integer, converted exactly.
\<close>

definition expense_ratio :: "session_state \<Rightarrow> pyfloat option" where
  "expense_ratio s =
     (if flt 0 (total_income s)
      then (if flt 0 (total_expenses s)
            then Some (fmul (fdiv (total_expenses s) (total_income s)) (Fin 100))
            else None)
      else None)"

datatype ratio_note = High_Spending | Healthy_Spending

definition expense_ratio_note :: "session_state \<Rightarrow> ratio_note option" where
  "expense_ratio_note s =
     (case expense_ratio s of
        None \<Rightarrow> None
      | Some r \<Rightarrow> (if flt (Fin 80) r then Some High_Spending
                   else if fle r (Fin 50) then Some Healthy_Spending
                   else None))"

text \<open>
  What the page shows in place of the recommendations. Line 128: with no income and no
  expense, the whole dashboard is the message "Start by adding your income sources and
  monthly expenses using the sidebar!". Line 304: with expenses and no income, tab 3 is
  the message "Add your income sources to see personalized recommendations!".
\<close>

datatype info_message = Start_By_Adding_Income_And_Expenses | Add_Your_Income_Sources

datatype tab3_view =
  Recommendations allocation assessment "pyfloat option" "ratio_note option"
  | Info info_message

definition tab3 :: "session_state \<Rightarrow> tab3_view" where
  "tab3 s =
     (if total_income s = 0 \<and> length (expenses s) = 0
      then Info Start_By_Adding_Income_And_Expenses
      else (case (budget_rule_502030 s, health_assessment s) of
              (Some a, Some h) \<Rightarrow> Recommendations a h (expense_ratio s) (expense_ratio_note s)
            | _ \<Rightarrow> Info Add_Your_Income_Sources))"

subsection \<open>The invariant of the store\<close>

definition valid_income :: "income_entry \<Rightarrow> bool" where
  "valid_income i = (income_name i \<noteq> [] \<and> income_amount i > 0)"

definition valid_expense :: "expense_entry \<Rightarrow> bool" where
  "valid_expense e = (expense_name e \<noteq> [] \<and> expense_amount e > 0)"

definition store_inv :: "session_state \<Rightarrow> bool" where
  "store_inv s = (list_all valid_income (income_sources s) \<and> list_all valid_expense (expenses s))"

text \<open>A click whose amount is a double, as every amount of a number input is.\<close>

fun double_input :: "event \<Rightarrow> bool" where
  "double_input (Add_Income nm amt) = is_double amt"
| "double_input (Add_Expense cat nm amt pri) = is_double amt"
| "double_input Clear_All_Data = True"

text \<open>
  A double that is infinite or at least the least positive double, and a state whose
  amounts are all doubles.
\<close>

fun positive_float :: "pyfloat \<Rightarrow> bool" where
  "positive_float (Fin r) = (pow2 (- 1074) \<le> r)"
| "positive_float PInf = True"
| "positive_float NInf = False"
| "positive_float NaN = False"

definition double_amounts :: "session_state \<Rightarrow> bool" where
  "double_amounts s =
     (list_all (\<lambda>i. is_double (income_amount i)) (income_sources s)
      \<and> list_all (\<lambda>e. is_double (expense_amount e)) (expenses s))"

section \<open>Rounding\<close>

subsection \<open>Positive results stay positive\<close>

lemma pow2_pos: "0 < pow2 e"
  by (simp add: pow2_def)

lemma pow2_mono: "a \<le> b \<Longrightarrow> pow2 a \<le> pow2 b"
proof -
  assume ab: "a \<le> b"
  have eq: "pow2 e = 2 powi e" for e
    by (simp add: pow2_def power_int_def field_simps)
  show ?thesis unfolding eq using ab by (intro power_int_increasing) simp_all
qed

lemma ilog2_le:
  assumes "0 < x"
  shows "pow2 (ilog2 x) \<le> x"
proof (cases "1 \<le> x")
  case True
  let ?n = "\<lfloor>x\<rfloor>"
  from True have n: "0 < ?n" by simp
  from bitlen_bounds [OF n] have b: "2 ^ nat (bitlen ?n - 1) \<le> ?n" by simp
  from n have "1 \<le> bitlen ?n" by (simp add: bitlen_alt_def)
  then have "pow2 (ilog2 x) = 2 ^ nat (bitlen ?n - 1)"
    using True by (simp add: ilog2_def pow2_def)
  also have "\<dots> = of_int (2 ^ nat (bitlen ?n - 1))" by simp
  also have "\<dots> \<le> of_int ?n" using b by (simp only: of_int_le_iff)
  also have "\<dots> \<le> x" by simp
  finally show ?thesis .
next
  case False
  let ?n = "\<lceil>1 / x\<rceil>"
  let ?k = "bitlen (?n - 1)"
  from False assms have "1 < 1 / x" by (simp add: field_simps)
  then have n: "0 < ?n - 1" by (simp add: less_ceiling_iff)
  from bitlen_bounds [OF n] have "?n - 1 < 2 ^ nat ?k" by simp
  then have le: "?n \<le> 2 ^ nat ?k" by simp
  have "1 / x \<le> of_int ?n" by (rule le_of_int_ceiling)
  also have "\<dots> \<le> of_int (2 ^ nat ?k)" using le by (simp only: of_int_le_iff)
  also have "\<dots> = 2 ^ nat ?k" by simp
  finally have "1 / x \<le> 2 ^ nat ?k" .
  then have "1 / 2 ^ nat ?k \<le> x"
    using assms by (simp add: field_simps)
  moreover from n have "1 \<le> ?k" by (simp add: bitlen_alt_def)
  ultimately show ?thesis
    using False by (simp add: ilog2_def pow2_def)
qed

lemma round_half_even_ge: "1 \<le> y \<Longrightarrow> 1 \<le> round_half_even y"
proof -
  assume "1 \<le> y"
  then have "1 \<le> \<lfloor>y\<rfloor>" by simp
  then show ?thesis by (simp add: round_half_even_def Let_def)
qed

lemma exponent_le:
  assumes "pow2 (- 1074) \<le> y"
  shows "pow2 (max (ilog2 y - 52) (- 1074)) \<le> y"
proof -
  from assms pow2_pos [of "- 1074"] have y: "0 < y" by simp
  have "pow2 (ilog2 y - 52) \<le> pow2 (ilog2 y)" by (rule pow2_mono) simp
  also have "\<dots> \<le> y" by (rule ilog2_le [OF y])
  finally show ?thesis using assms by (simp add: max_def)
qed

lemma round_double_positive:
  assumes "pow2 (- 1074) \<le> y"
  shows "positive_float (round_double y)"
proof -
  let ?e = "max (ilog2 y - 52) (- 1074)"
  let ?m = "round_half_even (y / pow2 ?e)"
  from assms pow2_pos [of "- 1074"] have y: "0 < y" by simp
  have "1 \<le> y / pow2 ?e"
    using exponent_le [OF assms] pow2_pos [of ?e] by (simp add: field_simps)
  then have "1 \<le> ?m" by (rule round_half_even_ge)
  then have "(1::rat) \<le> of_int ?m" by simp
  then have "pow2 ?e \<le> of_int ?m * pow2 ?e"
    using pow2_pos [of ?e] by (simp add: field_simps)
  moreover have "pow2 (- 1074) \<le> pow2 ?e" by (rule pow2_mono) simp
  ultimately have "pow2 (- 1074) \<le> of_int ?m * pow2 ?e" by simp
  with y show ?thesis
    by (simp add: round_double_def Let_def)
qed

lemma is_double_positive:
  assumes "is_double a" and "0 < a"
  shows "pow2 (- 1074) \<le> a"
proof -
  let ?e = "max (ilog2 a - 52) (- 1074)"
  let ?m = "round_half_even (a / pow2 ?e)"
  from assms have "a = of_int ?m * pow2 ?e"
    by (simp add: is_double_def round_double_def Let_def split: if_splits)
  with assms(2) pow2_pos [of ?e] have "0 < (of_int ?m :: rat)"
    by (metis zero_less_mult_pos2)
  then have "(1::rat) \<le> of_int ?m" by simp
  then have "pow2 ?e \<le> of_int ?m * pow2 ?e"
    using pow2_pos [of ?e] by (simp add: field_simps)
  moreover have "pow2 (- 1074) \<le> pow2 ?e" by (rule pow2_mono) simp
  ultimately show ?thesis using \<open>a = of_int ?m * pow2 ?e\<close> by simp
qed

lemma fadd_positive:
  assumes "v = 0 \<or> positive_float v" and "0 < a" and "is_double a"
  shows "positive_float (fadd v (Fin a))"
proof (cases v)
  case (Fin r)
  from assms(2,3) have a: "pow2 (- 1074) \<le> a" by (simp add: is_double_positive)
  from assms(1) Fin have "0 \<le> r"
    using pow2_pos [of "- 1074"] by (auto simp: zero_pyfloat_def)
  with a have "pow2 (- 1074) \<le> r + a" by simp
  with Fin show ?thesis by (simp add: round_double_positive)
qed (use assms in \<open>auto simp: zero_pyfloat_def\<close>)

lemma foldl_fadd_positive:
  assumes "positive_float v" and "list_all (\<lambda>a. 0 < a \<and> is_double a) xs"
  shows "positive_float (foldl fadd v (map Fin xs))"
  using assms by (induction xs arbitrary: v) (simp_all add: fadd_positive)

lemma py_sum_positive:
  assumes "xs \<noteq> []" and "list_all (\<lambda>a. 0 < a \<and> is_double a) xs"
  shows "positive_float (py_sum (map Fin xs))"
proof (cases xs)
  case Nil
  with assms show ?thesis by simp
next
  case (Cons a ys)
  with assms have "positive_float (fadd 0 (Fin a))" by (simp add: fadd_positive)
  with Cons assms show ?thesis
    by (simp add: py_sum_def foldl_fadd_positive)
qed

lemma positive_float_nonzero: "positive_float v \<Longrightarrow> v \<noteq> 0 \<and> flt 0 v"
  using pow2_pos [of "- 1074"] by (cases v) (auto simp: zero_pyfloat_def)

subsection \<open>Evaluating a rounding\<close>

text \<open>
  A rounding is checked against its exponent \<open>k\<close> and its integer of at most 53 bits
  \<open>m\<close>, with comparisons of numerals only.
\<close>

lemma pow2_strict_mono: "a < b \<Longrightarrow> pow2 a < pow2 b"
proof -
  assume ab: "a < b"
  have eq: "pow2 e = 2 powi e" for e
    by (simp add: pow2_def power_int_def field_simps)
  show ?thesis unfolding eq using ab by (intro power_int_strict_increasing) simp_all
qed

lemma ilog2_less:
  assumes "0 < x"
  shows "x < pow2 (ilog2 x + 1)"
proof (cases "1 \<le> x")
  case True
  let ?n = "\<lfloor>x\<rfloor>"
  from True have n: "0 < ?n" by simp
  from bitlen_bounds [OF n] have "?n < 2 ^ nat (bitlen ?n)" by simp
  then have "?n + 1 \<le> 2 ^ nat (bitlen ?n)" by simp
  then have le: "(of_int (?n + 1) :: rat) \<le> of_int (2 ^ nat (bitlen ?n))"
    by (simp only: of_int_le_iff)
  have "x < of_int (?n + 1)" by linarith
  also note le
  also have "(of_int (2 ^ nat (bitlen ?n)) :: rat) = 2 ^ nat (bitlen ?n)" by simp
  finally have "x < 2 ^ nat (bitlen ?n)" .
  moreover from n have "1 \<le> bitlen ?n" by (simp add: bitlen_alt_def)
  ultimately show ?thesis using True by (simp add: ilog2_def pow2_def)
next
  case False
  let ?n = "\<lceil>1 / x\<rceil>"
  let ?k = "bitlen (?n - 1)"
  from False assms have "1 < 1 / x" by (simp add: field_simps)
  then have n: "0 < ?n - 1" by (simp add: less_ceiling_iff)
  then have k: "1 \<le> ?k" by (simp add: bitlen_alt_def)
  from bitlen_bounds [OF n] have "2 ^ nat (?k - 1) \<le> ?n - 1" by simp
  then have le: "(of_int (2 ^ nat (?k - 1)) :: rat) \<le> of_int (?n - 1)"
    by (simp only: of_int_le_iff)
  have "(2 :: rat) ^ nat (?k - 1) = of_int (2 ^ nat (?k - 1))" by simp
  also note le
  also have "(of_int (?n - 1) :: rat) < 1 / x" by linarith
  finally have "2 ^ nat (?k - 1) < 1 / x" .
  then have "x < 1 / 2 ^ nat (?k - 1)"
    using assms by (simp add: field_simps)
  moreover have "pow2 (- ?k + 1) = 1 / 2 ^ nat (?k - 1)"
    using k by (auto simp: pow2_def)
  ultimately show ?thesis using False by (simp add: ilog2_def)
qed

lemma ilog2_unique:
  assumes "pow2 k \<le> x" and "x < pow2 (k + 1)"
  shows "ilog2 x = k"
proof -
  from assms(1) pow2_pos [of k] have x: "0 < x" by simp
  have "pow2 (ilog2 x) < pow2 (k + 1)"
    using ilog2_le [OF x] assms(2) by simp
  then have a: "ilog2 x < k + 1"
    using pow2_mono [of "k + 1" "ilog2 x"] by (cases "ilog2 x < k + 1") auto
  have "pow2 k < pow2 (ilog2 x + 1)"
    using ilog2_less [OF x] assms(1) by simp
  then have b: "k < ilog2 x + 1"
    using pow2_mono [of "ilog2 x + 1" k] by (cases "k < ilog2 x + 1") auto
  from a b show ?thesis by simp
qed

lemma round_half_even_eq:
  assumes "\<bar>y - of_int m\<bar> < 1 / 2 \<or> (\<bar>y - of_int m\<bar> = 1 / 2 \<and> even m)"
  shows "round_half_even y = m"
proof -
  consider "\<lfloor>y\<rfloor> = m" | "\<lfloor>y\<rfloor> = m - 1"
    using assms by (auto simp: abs_if floor_eq_iff split: if_splits)
  then show ?thesis
  proof cases
    case 1
    with assms show ?thesis
      by (auto simp: round_half_even_def Let_def abs_if split: if_splits)
  next
    case 2
    with assms show ?thesis
      by (auto simp: round_half_even_def Let_def abs_if split: if_splits)
  qed
qed

lemma round_doubleI:
  assumes "pow2 k \<le> \<bar>x\<bar>" and "\<bar>x\<bar> < pow2 (k + 1)"
    and "e = max (k - 52) (- 1074)"
    and "\<bar>\<bar>x\<bar> / pow2 e - of_int m\<bar> < 1 / 2
         \<or> (\<bar>\<bar>x\<bar> / pow2 e - of_int m\<bar> = 1 / 2 \<and> even m)"
    and "of_int m * pow2 e < pow2 1024"
    and "v = (if 0 < x then of_int m * pow2 e else - (of_int m * pow2 e))"
  shows "round_double x = Fin v"
proof -
  from assms(1) pow2_pos [of k] have x: "x \<noteq> 0" by auto
  have l: "ilog2 \<bar>x\<bar> = k" by (rule ilog2_unique [OF assms(1,2)])
  have r: "round_half_even (\<bar>x\<bar> / pow2 e) = m" by (rule round_half_even_eq [OF assms(4)])
  have "round_double x =
      (if pow2 1024 \<le> of_int m * pow2 e then (if 0 < x then PInf else NInf)
       else Fin (if 0 < x then of_int m * pow2 e else - (of_int m * pow2 e)))"
    by (simp only: round_double_def Let_def l assms(3) [symmetric] r x if_False)
  with assms(5,6) show ?thesis by simp
qed

lemma round_double_zero: "round_double 0 = Fin 0"
  by (simp add: round_double_def)

text \<open>The roundings that occur in the sessions evaluated below.\<close>

lemma round_double_value_1: "round_double (- 200) = Fin (- 200)"
  by (rule round_doubleI [where k = 7 and m = 7036874417766400 and e = "- 45"]) (simp_all add: pow2_def)

lemma round_double_value_2: "round_double (1 / 36028797018963968) = Fin (1 / 36028797018963968)"
  by (rule round_doubleI [where k = "- 55" and m = 4503599627370496 and e = "- 107"]) (simp_all add: pow2_def)

lemma round_double_value_3: "round_double (3602879701896397 / 36028797018963968) = Fin (3602879701896397 / 36028797018963968)"
  by (rule round_doubleI [where k = "- 4" and m = 7205759403792794 and e = "- 56"]) (simp_all add: pow2_def)

lemma round_double_value_4: "round_double (1 / 5) = Fin (3602879701896397 / 18014398509481984)"
  by (rule round_doubleI [where k = "- 3" and m = 7205759403792794 and e = "- 55"]) (simp_all add: pow2_def)

lemma round_double_value_5: "round_double (3602879701896397 / 18014398509481984) = Fin (3602879701896397 / 18014398509481984)"
  by (rule round_doubleI [where k = "- 3" and m = 7205759403792794 and e = "- 55"]) (simp_all add: pow2_def)

lemma round_double_value_6: "round_double (7205759403792795 / 36028797018963968) = Fin (7205759403792795 / 36028797018963968)"
  by (rule round_doubleI [where k = "- 3" and m = 7205759403792795 and e = "- 55"]) (simp_all add: pow2_def)

lemma round_double_value_7: "round_double (2702159776422297 / 9007199254740992) = Fin (2702159776422297 / 9007199254740992)"
  by (rule round_doubleI [where k = "- 2" and m = 5404319552844594 and e = "- 54"]) (simp_all add: pow2_def)

lemma round_double_value_8: "round_double (10808639105689189 / 36028797018963968) = Fin (2702159776422297 / 9007199254740992)"
  by (rule round_doubleI [where k = "- 2" and m = 5404319552844594 and e = "- 54"]) (simp_all add: pow2_def)

lemma round_double_value_9: "round_double (5404319552844595 / 18014398509481984) = Fin (5404319552844595 / 18014398509481984)"
  by (rule round_doubleI [where k = "- 2" and m = 5404319552844595 and e = "- 54"]) (simp_all add: pow2_def)

lemma round_double_value_10: "round_double (3 / 10) = Fin (5404319552844595 / 18014398509481984)"
  by (rule round_doubleI [where k = "- 2" and m = 5404319552844595 and e = "- 54"]) (simp_all add: pow2_def)

lemma round_double_value_11: "round_double (10808639105689191 / 36028797018963968) = Fin (1351079888211149 / 4503599627370496)"
  by (rule round_doubleI [where k = "- 2" and m = 5404319552844596 and e = "- 54"]) (simp_all add: pow2_def)

lemma round_double_value_12: "round_double (19 / 50) = Fin (3422735716801577 / 9007199254740992)"
  by (rule round_doubleI [where k = "- 2" and m = 6845471433603154 and e = "- 54"]) (simp_all add: pow2_def)

lemma round_double_value_13: "round_double (1 / 2) = Fin (1 / 2)"
  by (rule round_doubleI [where k = "- 1" and m = 4503599627370496 and e = "- 53"]) (simp_all add: pow2_def)

lemma round_double_value_14: "round_double (5404319552844595 / 9007199254740992) = Fin (5404319552844595 / 9007199254740992)"
  by (rule round_doubleI [where k = "- 1" and m = 5404319552844595 and e = "- 53"]) (simp_all add: pow2_def)

lemma round_double_value_15: "round_double (3 / 5) = Fin (5404319552844595 / 9007199254740992)"
  by (rule round_doubleI [where k = "- 1" and m = 5404319552844595 and e = "- 53"]) (simp_all add: pow2_def)

lemma round_double_value_16: "round_double (10808639105689191 / 18014398509481984) = Fin (1351079888211149 / 2251799813685248)"
  by (rule round_doubleI [where k = "- 1" and m = 5404319552844596 and e = "- 53"]) (simp_all add: pow2_def)

lemma round_double_value_17: "round_double (9 / 10) = Fin (8106479329266893 / 9007199254740992)"
  by (rule round_doubleI [where k = "- 1" and m = 8106479329266893 and e = "- 53"]) (simp_all add: pow2_def)

lemma round_double_value_18: "round_double 1 = Fin 1"
  by (rule round_doubleI [where k = 0 and m = 4503599627370496 and e = "- 52"]) (simp_all add: pow2_def)

lemma round_double_value_19: "round_double 2 = Fin 2"
  by (rule round_doubleI [where k = 1 and m = 4503599627370496 and e = "- 51"]) (simp_all add: pow2_def)

lemma round_double_value_20: "round_double (85568392920039425 / 2251799813685248) = Fin 38"
  by (rule round_doubleI [where k = 5 and m = 5348024557502464 and e = "- 47"]) (simp_all add: pow2_def)

lemma round_double_value_21: "round_double 50 = Fin 50"
  by (rule round_doubleI [where k = 5 and m = 7036874417766400 and e = "- 47"]) (simp_all add: pow2_def)

lemma round_double_value_22: "round_double (135107988821114875 / 2251799813685248) = Fin 60"
  by (rule round_doubleI [where k = 5 and m = 8444249301319680 and e = "- 47"]) (simp_all add: pow2_def)

lemma round_double_value_23: "round_double (202661983231672325 / 2251799813685248) = Fin 90"
  by (rule round_doubleI [where k = 6 and m = 6333186975989760 and e = "- 46"]) (simp_all add: pow2_def)

lemma round_double_value_24: "round_double (1797836971246301901 / 18014398509481984) = Fin (7022800668930867 / 70368744177664)"
  by (rule round_doubleI [where k = 6 and m = 7022800668930867 and e = "- 46"]) (simp_all add: pow2_def)

lemma round_double_value_25: "round_double 100 = Fin 100"
  by (rule round_doubleI [where k = 6 and m = 7036874417766400 and e = "- 46"]) (simp_all add: pow2_def)

lemma round_double_value_26: "round_double (3521955646092083 / 35184372088832) = Fin (3521955646092083 / 35184372088832)"
  by (rule round_doubleI [where k = 6 and m = 7043911292184166 and e = "- 46"]) (simp_all add: pow2_def)

lemma round_double_value_27: "round_double 200 = Fin 200"
  by (rule round_doubleI [where k = 7 and m = 7036874417766400 and e = "- 45"]) (simp_all add: pow2_def)

lemma round_double_value_28: "round_double (450359962737049625 / 2251799813685248) = Fin 200"
  by (rule round_doubleI [where k = 7 and m = 7036874417766400 and e = "- 45"]) (simp_all add: pow2_def)

lemma round_double_value_29: "round_double (675539944105574375 / 2251799813685248) = Fin 300"
  by (rule round_doubleI [where k = 8 and m = 5277655813324800 and e = "- 44"]) (simp_all add: pow2_def)

lemma round_double_value_30: "round_double 300 = Fin 300"
  by (rule round_doubleI [where k = 8 and m = 5277655813324800 and e = "- 44"]) (simp_all add: pow2_def)

lemma round_double_value_31: "round_double 400 = Fin 400"
  by (rule round_doubleI [where k = 8 and m = 7036874417766400 and e = "- 44"]) (simp_all add: pow2_def)

lemma round_double_value_32: "round_double 500 = Fin 500"
  by (rule round_doubleI [where k = 8 and m = 8796093022208000 and e = "- 44"]) (simp_all add: pow2_def)

lemma round_double_value_33: "round_double 600 = Fin 600"
  by (rule round_doubleI [where k = 9 and m = 5277655813324800 and e = "- 43"]) (simp_all add: pow2_def)

lemma round_double_value_34: "round_double 900 = Fin 900"
  by (rule round_doubleI [where k = 9 and m = 7916483719987200 and e = "- 43"]) (simp_all add: pow2_def)

lemma round_double_value_35: "round_double 1000 = Fin 1000"
  by (rule round_doubleI [where k = 9 and m = 8796093022208000 and e = "- 43"]) (simp_all add: pow2_def)

lemma round_double_value_36: "round_double (2251799813685248125 / 2251799813685248) = Fin 1000"
  by (rule round_doubleI [where k = 9 and m = 8796093022208000 and e = "- 43"]) (simp_all add: pow2_def)

lemma round_double_value_37: "round_double 1200 = Fin 1200"
  by (rule round_doubleI [where k = 10 and m = 5277655813324800 and e = "- 42"]) (simp_all add: pow2_def)

lemma round_double_value_38: "round_double (3377699720527871875 / 2251799813685248) = Fin 1500"
  by (rule round_doubleI [where k = 10 and m = 6597069766656000 and e = "- 42"]) (simp_all add: pow2_def)

lemma round_double_value_39: "round_double 1500 = Fin 1500"
  by (rule round_doubleI [where k = 10 and m = 6597069766656000 and e = "- 42"]) (simp_all add: pow2_def)

lemma round_double_value_40: "round_double 1900 = Fin 1900"
  by (rule round_doubleI [where k = 10 and m = 8356288371097600 and e = "- 42"]) (simp_all add: pow2_def)

lemma round_double_value_41: "round_double 2500 = Fin 2500"
  by (rule round_doubleI [where k = 11 and m = 5497558138880000 and e = "- 41"]) (simp_all add: pow2_def)

lemma round_double_value_42: "round_double 3100 = Fin 3100"
  by (rule round_doubleI [where k = 11 and m = 6816972092211200 and e = "- 41"]) (simp_all add: pow2_def)

lemma round_double_value_43: "round_double 5000 = Fin 5000"
  by (rule round_doubleI [where k = 12 and m = 5497558138880000 and e = "- 40"]) (simp_all add: pow2_def)

lemma round_double_value_44: "round_double 10000000000000000 = Fin 10000000000000000"
  by (rule round_doubleI [where k = 53 and m = 5000000000000000 and e = 1]) (simp_all add: pow2_def)

lemma round_double_value_45: "round_double 10000000000000001 = Fin 10000000000000000"
  by (rule round_doubleI [where k = 53 and m = 5000000000000000 and e = 1]) (simp_all add: pow2_def)

lemma round_double_value_46: "round_double 10000000000000002 = Fin 10000000000000002"
  by (rule round_doubleI [where k = 53 and m = 5000000000000001 and e = 1]) (simp_all add: pow2_def)

lemmas round_double_values = round_double_zero
  round_double_value_1 round_double_value_2 round_double_value_3 round_double_value_4
  round_double_value_5 round_double_value_6 round_double_value_7 round_double_value_8
  round_double_value_9 round_double_value_10 round_double_value_11 round_double_value_12
  round_double_value_13 round_double_value_14 round_double_value_15 round_double_value_16
  round_double_value_17 round_double_value_18 round_double_value_19 round_double_value_20
  round_double_value_21 round_double_value_22 round_double_value_23 round_double_value_24
  round_double_value_25 round_double_value_26 round_double_value_27 round_double_value_28
  round_double_value_29 round_double_value_30 round_double_value_31 round_double_value_32
  round_double_value_33 round_double_value_34 round_double_value_35 round_double_value_36
  round_double_value_37 round_double_value_38 round_double_value_39 round_double_value_40
  round_double_value_41 round_double_value_42 round_double_value_43 round_double_value_44
  round_double_value_45 round_double_value_46

lemmas evals = total_income_def total_expenses_def remaining_balance_def
  add_income_def add_expense_def init_state_def py_sum_def fsub_def zero_pyfloat_def

section \<open>Properties\<close>

subsection \<open>Totals over a session\<close>


lemma total_income_amounts:
  "total_income s = py_sum (map Fin (map income_amount (income_sources s)))"
  by (simp add: total_income_def comp_def)





text \<open>
  C2, as the claim states it, fails: with an income of 100.1 and an expense of 0.3 (the
  doubles nearest to them) the remaining balance is the double 99.8, which is not the
  total income minus the total expenses.
\<close>

theorem C2_remaining_balance_counterexample:
  "total_income (run
     [Add_Income ''Salary'' (3521955646092083 / 35184372088832),
      Add_Expense Other ''Misc'' (5404319552844595 / 18014398509481984) Low] init_state)
     = Fin (3521955646092083 / 35184372088832)
 \<and> total_expenses (run
     [Add_Income ''Salary'' (3521955646092083 / 35184372088832),
      Add_Expense Other ''Misc'' (5404319552844595 / 18014398509481984) Low] init_state)
     = Fin (5404319552844595 / 18014398509481984)
 \<and> remaining_balance (run
     [Add_Income ''Salary'' (3521955646092083 / 35184372088832),
      Add_Expense Other ''Misc'' (5404319552844595 / 18014398509481984) Low] init_state)
     = Fin (7022800668930867 / 70368744177664)
 \<and> remaining_balance (run
     [Add_Income ''Salary'' (3521955646092083 / 35184372088832),
      Add_Expense Other ''Misc'' (5404319552844595 / 18014398509481984) Low] init_state)
     \<noteq> Fin ((3521955646092083 / 35184372088832) - (5404319552844595 / 18014398509481984))"
  by (simp add: evals round_double_values)

text \<open>
  C2, amended: in every state the remaining balance is the floating-point difference of
  the total income and the total expenses, that is, for finite totals, their difference
  rounded to the nearest double; it can be negative: a salary of 1000 and one expense of
  1200 leave -200.
\<close>

theorem C2_remaining_balance_amended:
  "remaining_balance s = fsub (total_income s) (total_expenses s)
 \<and> (total_income s = Fin a \<and> total_expenses s = Fin b \<longrightarrow>
      remaining_balance s = round_double (a - b))
 \<and> remaining_balance (run [Add_Income ''Salary'' 1000, Add_Expense Other ''Misc'' 1200 Low] init_state)
     = Fin (- 200)
 \<and> flt (remaining_balance (run [Add_Income ''Salary'' 1000, Add_Expense Other ''Misc'' 1200 Low] init_state)) 0"
proof -
  have "remaining_balance (run [Add_Income ''Salary'' 1000, Add_Expense Other ''Misc'' 1200 Low] init_state)
      = Fin (- 200)"
    by (simp add: evals round_double_values)
  then show ?thesis
    by (simp add: remaining_balance_def fsub_def zero_pyfloat_def)
qed

theorem C2_remaining_balance_amended_witness:
  "remaining_balance (run [Add_Income ''Salary'' 1000, Add_Expense Housing ''Rent'' 900 Critical] init_state)
     = Fin 100"
proof -
  define S where "S = run [Add_Income ''Salary'' 1000, Add_Expense Housing ''Rent'' 900 Critical] init_state"
  have "total_income S = Fin 1000" and "total_expenses S = Fin 900"
    by (simp_all add: S_def evals round_double_values)
  with C2_remaining_balance_amended [of S 1000 900]
  have "remaining_balance S = round_double (1000 - 900)" by blast
  then show ?thesis unfolding S_def by (simp add: round_double_values)
qed

subsection \<open>The handlers\<close>

lemma session_state_neq_append_income:
  "s\<lparr>income_sources := income_sources s @ [i]\<rparr> \<noteq> s"
proof
  assume "s\<lparr>income_sources := income_sources s @ [i]\<rparr> = s"
  then have "income_sources (s\<lparr>income_sources := income_sources s @ [i]\<rparr>) = income_sources s"
    by simp
  then show False by simp
qed

lemma session_state_neq_append_expense:
  "s\<lparr>expenses := expenses s @ [e]\<rparr> \<noteq> s"
proof
  assume "s\<lparr>expenses := expenses s @ [e]\<rparr> = s"
  then have "expenses (s\<lparr>expenses := expenses s @ [e]\<rparr>) = expenses s"
    by simp
  then show False by simp
qed

text \<open>
  C3: \<^verbatim>\<open>Add Income\<close> and \<^verbatim>\<open>Add Expense\<close> leave the state as it was exactly when the name
  is the empty string or the amount is at most 0; otherwise each appends one entry with
  the fields given, and changes nothing else.
\<close>

theorem C3_add_validation:
  "(add_income nm amt s = s) = (nm = [] \<or> amt \<le> 0)
 \<and> add_income nm amt s =
     (if nm = [] \<or> amt \<le> 0 then s
      else s\<lparr>income_sources := income_sources s @ [\<lparr>income_name = nm, income_amount = amt\<rparr>]\<rparr>)
 \<and> (add_expense cat nm amt pri s = s) = (nm = [] \<or> amt \<le> 0)
 \<and> add_expense cat nm amt pri s =
     (if nm = [] \<or> amt \<le> 0 then s
      else s\<lparr>expenses := expenses s @
             [\<lparr>expense_category = cat, expense_name = nm,
               expense_amount = amt, expense_priority = pri\<rparr>]\<rparr>)"
  by (auto simp: add_income_def add_expense_def
      session_state_neq_append_income session_state_neq_append_expense not_less)

theorem C3_add_validation_witness:
  "add_income [] 100 init_state = init_state
 \<and> add_income ''Bonus'' 0 init_state = init_state
 \<and> add_income ''Bonus'' 100 init_state =
     \<lparr>expenses = [], income_sources = [\<lparr>income_name = ''Bonus'', income_amount = 100\<rparr>]\<rparr>
 \<and> add_expense Other [] 100 Low init_state = init_state
 \<and> add_expense Other ''Bonus'' 0 Low init_state = init_state
 \<and> add_expense Other ''Bonus'' 100 Low init_state =
     \<lparr>expenses = [\<lparr>expense_category = Other, expense_name = ''Bonus'',
                   expense_amount = 100, expense_priority = Low\<rparr>], income_sources = []\<rparr>"
  using C3_add_validation [of "[]" 100 init_state Other Low]
    C3_add_validation [of "''Bonus''" 0 init_state Other Low]
    C3_add_validation [of "''Bonus''" 100 init_state Other Low]
  by (simp add: init_state_def)

text \<open>
  C9: \<^verbatim>\<open>Clear All Data\<close> is defined on every state and gives the initial state: both
  lists are empty, the three totals are 0, no grouping, allocation, assessment or ratio is
  computed, and the page shows the opening message.
\<close>

theorem C9_clear_all:
  "clear_all s = init_state
 \<and> expenses (clear_all s) = [] \<and> income_sources (clear_all s) = []
 \<and> total_income (clear_all s) = 0 \<and> total_expenses (clear_all s) = 0
 \<and> remaining_balance (clear_all s) = 0
 \<and> priority_summary_tab1 (clear_all s) = None
 \<and> category_summary (clear_all s) = None
 \<and> priority_summary_tab2 (clear_all s) = None
 \<and> budget_rule_502030 (clear_all s) = None
 \<and> health_assessment (clear_all s) = None
 \<and> expense_ratio (clear_all s) = None
 \<and> expense_ratio_note (clear_all s) = None
 \<and> tab3 (clear_all s) = Info Start_By_Adding_Income_And_Expenses"
  by (simp add: clear_all_def init_state_def total_income_def total_expenses_def
      remaining_balance_def priority_summary_tab1_def category_summary_def
      priority_summary_tab2_def budget_rule_502030_def health_assessment_def
      expense_ratio_def expense_ratio_note_def tab3_def
      py_sum_def fsub_def zero_pyfloat_def round_double_def)

subsection \<open>Recommendations\<close>

lemma flt_not_fle: "flt x y \<Longrightarrow> \<not> fle y x"
  by (cases x; cases y) (auto simp: fle_def)

lemma flt_irrefl: "\<not> flt x x"
  by (cases x) auto

text \<open>
  C4: with a total income greater than 0 there is exactly one assessment, and it is the
  budget deficit (printing the absolute value of the balance) exactly when the balance is
  below 0, the low savings rate exactly when the balance is at least 0 and below the
  savings target of the 50/30/20 rule, the good budget health in every other case; the
  first two cases exclude each other. With a total income equal to 0 there is no
  assessment.
\<close>

theorem C4_health_assessment:
  "(flt 0 (total_income s) \<longrightarrow>
      (\<exists>a. budget_rule_502030 s = Some a
         \<and> (health_assessment s = Some (Budget_Deficit (fabs (remaining_balance s))))
             = flt (remaining_balance s) 0
         \<and> (health_assessment s = Some (Low_Savings_Rate (remaining_balance s) (savings_budget a)))
             = (fle 0 (remaining_balance s) \<and> flt (remaining_balance s) (savings_budget a))
         \<and> (health_assessment s = Some (Good_Budget_Health (remaining_balance s)))
             = (\<not> flt (remaining_balance s) 0
                \<and> \<not> (fle 0 (remaining_balance s) \<and> flt (remaining_balance s) (savings_budget a)))
         \<and> \<not> (flt (remaining_balance s) 0
               \<and> fle 0 (remaining_balance s) \<and> flt (remaining_balance s) (savings_budget a))
         \<and> (\<exists>!h. health_assessment s = Some h)))
 \<and> (total_income s = 0 \<longrightarrow> health_assessment s = None)"
proof -
  let ?rb = "remaining_balance s"
  let ?sav = "fmul (total_income s) lit_0_20"
  have ex: "\<not> (flt ?rb 0 \<and> fle 0 ?rb)" using flt_not_fle by blast
  have low: "flt ?rb ?sav \<Longrightarrow> \<not> flt ?rb 0 \<Longrightarrow> fle 0 ?rb"
    by (cases ?rb; cases ?sav) (auto simp: fle_def zero_pyfloat_def)
  show ?thesis
    using ex low
    by (auto simp: health_assessment_def budget_rule_502030_def Let_def flt_irrefl)
qed

theorem C4_health_assessment_witness:
  "health_assessment (run
     [Add_Income ''Salary'' 5000, Add_Expense Housing ''Rent'' 1500 Critical,
      Add_Expense Food_Groceries ''Groceries'' 400 High] init_state) = Some (Good_Budget_Health (Fin 3100))
 \<and> health_assessment (run [Add_Income ''Salary'' 1000, Add_Expense Other ''Misc'' 1200 Low] init_state)
     = Some (Budget_Deficit (Fin 200))
 \<and> health_assessment (run [Add_Income ''Salary'' 1000, Add_Expense Housing ''Rent'' 900 Critical] init_state)
     = Some (Low_Savings_Rate (Fin 100) (Fin 200))
 \<and> health_assessment init_state = None"
proof -
  define G where "G = run
     [Add_Income ''Salary'' 5000, Add_Expense Housing ''Rent'' 1500 Critical,
      Add_Expense Food_Groceries ''Groceries'' 400 High] init_state"
  define D where "D = run [Add_Income ''Salary'' 1000, Add_Expense Other ''Misc'' 1200 Low] init_state"
  define L where "L = run [Add_Income ''Salary'' 1000, Add_Expense Housing ''Rent'' 900 Critical] init_state"
  have g: "flt 0 (total_income G)" "remaining_balance G = Fin 3100"
    "budget_rule_502030 G = Some \<lparr>needs_budget = Fin 2500, wants_budget = Fin 1500,
       savings_budget = Fin 1000\<rparr>"
    by (simp_all add: G_def evals budget_rule_502030_def lit_0_50_def lit_0_30_def lit_0_20_def
        round_double_values)
  have d: "flt 0 (total_income D)" "remaining_balance D = Fin (- 200)"
    by (simp_all add: D_def evals round_double_values)
  have l: "flt 0 (total_income L)" "remaining_balance L = Fin 100"
    "budget_rule_502030 L = Some \<lparr>needs_budget = Fin 500, wants_budget = Fin 300,
       savings_budget = Fin 200\<rparr>"
    by (simp_all add: L_def evals budget_rule_502030_def lit_0_50_def lit_0_30_def lit_0_20_def
        round_double_values)
  have z: "total_income init_state = 0" by (simp add: evals)
  have "health_assessment G = Some (Good_Budget_Health (Fin 3100))"
    using C4_health_assessment [of G] g by (auto simp: zero_pyfloat_def fle_def)
  moreover have "health_assessment D = Some (Budget_Deficit (Fin 200))"
    using C4_health_assessment [of D] d by (auto simp: zero_pyfloat_def fle_def)
  moreover have "health_assessment L = Some (Low_Savings_Rate (Fin 100) (Fin 200))"
    using C4_health_assessment [of L] l by (auto simp: zero_pyfloat_def fle_def)
  moreover have "health_assessment init_state = None"
    using C4_health_assessment [of init_state] z by blast
  ultimately show ?thesis unfolding G_def D_def L_def by blast
qed

text \<open>
  C5, as the claim states it, fails: with a total income of 1 the wants target is the
  double nearest to 0.3 and the savings target the double nearest to 0.2, neither of
  which is 0.30 or 0.20 times the income.
\<close>

theorem C5_budget_rule_counterexample:
  "total_income (run [Add_Income ''Gift'' 1] init_state) = Fin 1
 \<and> budget_rule_502030 (run [Add_Income ''Gift'' 1] init_state)
     = Some \<lparr>needs_budget = Fin (1 / 2),
             wants_budget = Fin (5404319552844595 / 18014398509481984),
             savings_budget = Fin (3602879701896397 / 18014398509481984)\<rparr>
 \<and> map_option wants_budget (budget_rule_502030 (run [Add_Income ''Gift'' 1] init_state))
     \<noteq> Some (Fin (30 / 100 * 1))
 \<and> map_option savings_budget (budget_rule_502030 (run [Add_Income ''Gift'' 1] init_state))
     \<noteq> Some (Fin (20 / 100 * 1))"
  by (simp add: evals budget_rule_502030_def lit_0_50_def lit_0_30_def lit_0_20_def
      round_double_values)

text \<open>
  C5, amended: with a total income T greater than 0 the allocation is T times 0.50 for
  needs, T times 0.30 for wants and T times 0.20 for savings, each factor the double
  nearest to the literal and each product rounded to the nearest double. Otherwise no
  allocation is computed and the page shows a message asking for income: the opening
  message when there is no expense either, the message of tab 3 when there are expenses.
\<close>

theorem C5_budget_rule_amended:
  "(flt 0 (total_income s) \<longrightarrow>
      budget_rule_502030 s =
        Some \<lparr>needs_budget = fmul (total_income s) lit_0_50,
              wants_budget = fmul (total_income s) lit_0_30,
              savings_budget = fmul (total_income s) lit_0_20\<rparr>)
 \<and> (flt 0 (total_income s) \<and> total_income s = Fin t \<longrightarrow>
      budget_rule_502030 s =
        Some \<lparr>needs_budget = round_double (t * (1 / 2)),
              wants_budget = round_double (t * (5404319552844595 / 18014398509481984)),
              savings_budget = round_double (t * (3602879701896397 / 18014398509481984))\<rparr>)
 \<and> (\<not> flt 0 (total_income s) \<longrightarrow>
      budget_rule_502030 s = None
    \<and> tab3 s = Info (if total_income s = 0 \<and> expenses s = []
                      then Start_By_Adding_Income_And_Expenses else Add_Your_Income_Sources))"
  by (auto simp: budget_rule_502030_def tab3_def lit_0_50_def lit_0_30_def lit_0_20_def
      round_double_values flt_irrefl)

theorem C5_budget_rule_amended_witness:
  "budget_rule_502030 (run
     [Add_Income ''Salary'' 5000, Add_Expense Housing ''Rent'' 1500 Critical,
      Add_Expense Food_Groceries ''Groceries'' 400 High] init_state)
     = Some \<lparr>needs_budget = Fin 2500, wants_budget = Fin 1500, savings_budget = Fin 1000\<rparr>
 \<and> budget_rule_502030 init_state = None
 \<and> tab3 init_state = Info Start_By_Adding_Income_And_Expenses
 \<and> budget_rule_502030 (run [Add_Expense Other ''Misc'' 1200 Low] init_state) = None
 \<and> tab3 (run [Add_Expense Other ''Misc'' 1200 Low] init_state) = Info Add_Your_Income_Sources"
proof -
  define G where "G = run
     [Add_Income ''Salary'' 5000, Add_Expense Housing ''Rent'' 1500 Critical,
      Add_Expense Food_Groceries ''Groceries'' 400 High] init_state"
  define X where "X = run [Add_Expense Other ''Misc'' 1200 Low] init_state"
  have g: "flt 0 (total_income G)"
    "fmul (total_income G) lit_0_50 = Fin 2500"
    "fmul (total_income G) lit_0_30 = Fin 1500"
    "fmul (total_income G) lit_0_20 = Fin 1000"
    by (simp_all add: G_def evals lit_0_50_def lit_0_30_def lit_0_20_def round_double_values)
  have z: "\<not> flt 0 (total_income init_state)" "total_income init_state = 0"
    "expenses init_state = []"
    by (simp_all add: evals)
  have x: "\<not> flt 0 (total_income X)" "expenses X \<noteq> []"
    by (simp_all add: X_def evals)
  from C5_budget_rule_amended [of G] g
  have "budget_rule_502030 G
     = Some \<lparr>needs_budget = Fin 2500, wants_budget = Fin 1500, savings_budget = Fin 1000\<rparr>"
    by simp
  moreover from C5_budget_rule_amended [of init_state] z
  have "budget_rule_502030 init_state = None"
    and "tab3 init_state = Info Start_By_Adding_Income_And_Expenses"
    by simp_all
  moreover from C5_budget_rule_amended [of X] x
  have "budget_rule_502030 X = None" and "tab3 X = Info Add_Your_Income_Sources"
    by simp_all
  ultimately show ?thesis unfolding G_def X_def by blast
qed

lemma fle_50_not_flt_80: "fle r (Fin 50) \<Longrightarrow> \<not> flt (Fin 80) r"
  by (cases r) (auto simp: fle_def)

text \<open>
  C6, as the claim states it, fails: with a salary of 1000 and no expense the total income
  is greater than 0 and expenses over income times 100 is 0, at most 50, yet the script
  computes no ratio and shows no note (line 295 asks for total expenses greater than 0
  first).
\<close>

theorem C6_expense_ratio_counterexample:
  "flt 0 (total_income (run [Add_Income ''Salary'' 1000] init_state))
 \<and> fle (fmul (fdiv (total_expenses (run [Add_Income ''Salary'' 1000] init_state))
                  (total_income (run [Add_Income ''Salary'' 1000] init_state))) (Fin 100)) (Fin 50)
 \<and> expense_ratio (run [Add_Income ''Salary'' 1000] init_state) = None
 \<and> expense_ratio_note (run [Add_Income ''Salary'' 1000] init_state) = None"
  by (simp add: evals expense_ratio_def expense_ratio_note_def fle_def round_double_values)

text \<open>
  C6, amended: with total income and total expenses both greater than 0 the ratio is the
  total expenses divided by the total income, times 100, quotient and product each
  rounded to the nearest double; the high spending note comes with it exactly when it is
  above 80, the healthy spending note exactly when it is at most 50, and no note
  otherwise. With a total income greater than 0 and total expenses not greater than 0
  there is neither ratio nor note. With a total income equal to 0 there is neither, and
  the page shows a message asking for income.
\<close>

theorem C6_expense_ratio_amended:
  "(flt 0 (total_income s) \<and> flt 0 (total_expenses s) \<longrightarrow>
      expense_ratio s = Some (fmul (fdiv (total_expenses s) (total_income s)) (Fin 100))
    \<and> (expense_ratio_note s = Some High_Spending)
        = flt (Fin 80) (fmul (fdiv (total_expenses s) (total_income s)) (Fin 100))
    \<and> (expense_ratio_note s = Some Healthy_Spending)
        = fle (fmul (fdiv (total_expenses s) (total_income s)) (Fin 100)) (Fin 50)
    \<and> (expense_ratio_note s = None)
        = (\<not> flt (Fin 80) (fmul (fdiv (total_expenses s) (total_income s)) (Fin 100))
           \<and> \<not> fle (fmul (fdiv (total_expenses s) (total_income s)) (Fin 100)) (Fin 50)))
 \<and> (flt 0 (total_income s) \<and> \<not> flt 0 (total_expenses s) \<longrightarrow>
      expense_ratio s = None \<and> expense_ratio_note s = None)
 \<and> (total_income s = 0 \<longrightarrow>
      expense_ratio s = None \<and> expense_ratio_note s = None
    \<and> tab3 s = Info (if expenses s = []
                      then Start_By_Adding_Income_And_Expenses else Add_Your_Income_Sources))"
  using fle_50_not_flt_80
  by (auto simp: expense_ratio_note_def expense_ratio_def tab3_def budget_rule_502030_def
      flt_irrefl)

theorem C6_expense_ratio_amended_witness:
  "expense_ratio (run
     [Add_Income ''Salary'' 5000, Add_Expense Housing ''Rent'' 1500 Critical,
      Add_Expense Food_Groceries ''Groceries'' 400 High] init_state) = Some (Fin 38)
 \<and> expense_ratio_note (run
     [Add_Income ''Salary'' 5000, Add_Expense Housing ''Rent'' 1500 Critical,
      Add_Expense Food_Groceries ''Groceries'' 400 High] init_state) = Some Healthy_Spending
 \<and> expense_ratio_note (run [Add_Income ''Salary'' 1000, Add_Expense Housing ''Rent'' 900 Critical] init_state)
     = Some High_Spending
 \<and> expense_ratio_note (run [Add_Income ''Salary'' 1000, Add_Expense Housing ''Rent'' 600 Critical] init_state)
     = None
 \<and> expense_ratio (run [Add_Income ''Salary'' 1000] init_state) = None
 \<and> expense_ratio init_state = None
 \<and> tab3 init_state = Info Start_By_Adding_Income_And_Expenses"
proof -
  define G where "G = run
     [Add_Income ''Salary'' 5000, Add_Expense Housing ''Rent'' 1500 Critical,
      Add_Expense Food_Groceries ''Groceries'' 400 High] init_state"
  define L where "L = run [Add_Income ''Salary'' 1000, Add_Expense Housing ''Rent'' 900 Critical] init_state"
  define M where "M = run [Add_Income ''Salary'' 1000, Add_Expense Housing ''Rent'' 600 Critical] init_state"
  define I where "I = run [Add_Income ''Salary'' 1000] init_state"
  have g: "flt 0 (total_income G)" "flt 0 (total_expenses G)"
    "fmul (fdiv (total_expenses G) (total_income G)) (Fin 100) = Fin 38"
    by (simp_all add: G_def evals round_double_values)
  have l: "flt 0 (total_income L)" "flt 0 (total_expenses L)"
    "fmul (fdiv (total_expenses L) (total_income L)) (Fin 100) = Fin 90"
    by (simp_all add: L_def evals round_double_values)
  have m: "flt 0 (total_income M)" "flt 0 (total_expenses M)"
    "fmul (fdiv (total_expenses M) (total_income M)) (Fin 100) = Fin 60"
    by (simp_all add: M_def evals round_double_values)
  have i: "flt 0 (total_income I)" "\<not> flt 0 (total_expenses I)"
    by (simp_all add: I_def evals round_double_values)
  have z: "total_income init_state = 0" "expenses init_state = []"
    by (simp_all add: evals)
  from C6_expense_ratio_amended [of G] g
  have "expense_ratio G = Some (Fin 38)" and "expense_ratio_note G = Some Healthy_Spending"
    by (simp_all add: fle_def)
  moreover from C6_expense_ratio_amended [of L] l
  have "expense_ratio_note L = Some High_Spending" by simp
  moreover from C6_expense_ratio_amended [of M] m
  have "expense_ratio_note M = None" by (simp add: fle_def)
  moreover from C6_expense_ratio_amended [of I] i
  have "expense_ratio I = None" by simp
  moreover from C6_expense_ratio_amended [of init_state] z
  have "expense_ratio init_state = None"
    and "tab3 init_state = Info Start_By_Adding_Income_And_Expenses"
    by simp_all
  ultimately show ?thesis unfolding G_def L_def M_def I_def by blast
qed

subsection \<open>Groupings\<close>

lemma map_fst_groupby_sum:
  "map fst (groupby_sum ks col es) = filter (\<lambda>k. k \<in> set (map col es)) ks"
  by (simp add: groupby_sum_def comp_def)

lemma map_fst_insort_key:
  "map fst (insort_key (\<lambda>row. f (fst row)) r rs) = insort_key f (fst r) (map fst rs)"
  by (induction rs) simp_all

lemma map_fst_sort_key:
  "map fst (sort_key (\<lambda>row. f (fst row)) rs) = sort_key f (map fst rs)"
  by (induction rs) (simp_all add: map_fst_insort_key)

lemma sort_priority_code:
  "sort_key priority_code (filter P sorted_priority_labels) = filter P priority_order"
  by (simp add: sorted_priority_labels_def priority_order_def)

lemma sorted_rev_sort_values_descending:
  "sorted (rev (map (\<lambda>row. sort_rank (snd row)) (sort_values_descending rows)))"
proof -
  have "rev (map (\<lambda>row. sort_rank (snd row)) (sort_values_descending rows))
      = map (\<lambda>row. sort_rank (snd row)) (sort_key (\<lambda>row. sort_rank (snd row)) (rev rows))"
    by (simp add: sort_values_descending_def rev_map)
  then show ?thesis by simp
qed

text \<open>
  C7, as the claim states it, fails on the text summary of tab 1: with a Low expense of
  300 and a Critical expense of 50 its rows are Low, then Critical, since line 152 sorts
  them by amount.
\<close>

theorem C7_priority_rows_counterexample:
  "expenses (run
     [Add_Expense Entertainment ''Concert'' 300 Low,
      Add_Expense Utilities ''Water'' 50 Critical] init_state) \<noteq> []
 \<and> priority_summary_tab1 (run
     [Add_Expense Entertainment ''Concert'' 300 Low,
      Add_Expense Utilities ''Water'' 50 Critical] init_state)
     = Some [(Low, Fin 300), (Critical, Fin 50)]"
  by (simp add: evals priority_summary_tab1_def sort_values_descending_def groupby_sum_def
      sorted_priority_labels_def group_sum_def kahan_step_def Let_def round_double_values)

text \<open>
  C7, amended: for every non-empty expense list the rows of the bar chart of tab 2 are
  those of the priorities that occur, in the order Critical, High, Medium, Low, whatever
  the order of the expenses; the rows of the text summary of tab 1 are in the order of
  their sums, largest first.
\<close>

theorem C7_priority_rows_amended:
  "expenses s \<noteq> [] \<longrightarrow>
     (\<exists>rows. priority_summary_tab2 s = Some rows
        \<and> map fst rows = filter (\<lambda>p. p \<in> set (map expense_priority (expenses s))) priority_order)
   \<and> (\<forall>s'. mset (expenses s') = mset (expenses s) \<longrightarrow>
        map fst (rows_of (priority_summary_tab2 s')) = map fst (rows_of (priority_summary_tab2 s)))
   \<and> (\<exists>rows. priority_summary_tab1 s = Some rows
        \<and> sorted (rev (map (\<lambda>row. sort_rank (snd row)) rows)))"
proof
  assume ne: "expenses s \<noteq> []"
  have a: "map fst (sort_key (\<lambda>row. priority_code (fst row))
              (groupby_sum sorted_priority_labels expense_priority es))
         = filter (\<lambda>p. p \<in> set (map expense_priority es)) priority_order" for es
    by (simp only: map_fst_sort_key map_fst_groupby_sum sort_priority_code)
  have b: "map fst (rows_of (priority_summary_tab2 s')) = map fst (rows_of (priority_summary_tab2 s))"
    if eq: "mset (expenses s') = mset (expenses s)" for s'
  proof -
    from eq ne have ne': "expenses s' \<noteq> []" by auto
    from eq have "set (expenses s') = set (expenses s)" by (rule mset_eq_setD)
    then have "set (map expense_priority (expenses s')) = set (map expense_priority (expenses s))"
      by simp
    with ne ne' show ?thesis
      by (simp add: priority_summary_tab2_def a)
  qed
  from ne a b sorted_rev_sort_values_descending show
    "(\<exists>rows. priority_summary_tab2 s = Some rows
        \<and> map fst rows = filter (\<lambda>p. p \<in> set (map expense_priority (expenses s))) priority_order)
   \<and> (\<forall>s'. mset (expenses s') = mset (expenses s) \<longrightarrow>
        map fst (rows_of (priority_summary_tab2 s')) = map fst (rows_of (priority_summary_tab2 s)))
   \<and> (\<exists>rows. priority_summary_tab1 s = Some rows
        \<and> sorted (rev (map (\<lambda>row. sort_rank (snd row)) rows)))"
    by (simp add: priority_summary_tab2_def priority_summary_tab1_def)
qed

theorem C7_priority_rows_amended_witness:
  "map fst (rows_of (priority_summary_tab2 (run
     [Add_Expense Entertainment ''Concert'' 300 Low,
      Add_Expense Utilities ''Water'' 50 Critical] init_state))) = [Critical, Low]
 \<and> map fst (rows_of (priority_summary_tab2 (run
     [Add_Expense Utilities ''Water'' 50 Critical,
      Add_Expense Entertainment ''Concert'' 300 Low] init_state)))
   = map fst (rows_of (priority_summary_tab2 (run
     [Add_Expense Entertainment ''Concert'' 300 Low,
      Add_Expense Utilities ''Water'' 50 Critical] init_state)))
 \<and> sorted (rev (map (\<lambda>row. sort_rank (snd row)) (rows_of (priority_summary_tab1 (run
     [Add_Expense Entertainment ''Concert'' 300 Low,
      Add_Expense Utilities ''Water'' 50 Critical] init_state)))))"
proof -
  define P where "P = run
     [Add_Expense Entertainment ''Concert'' 300 Low,
      Add_Expense Utilities ''Water'' 50 Critical] init_state"
  define Q where "Q = run
     [Add_Expense Utilities ''Water'' 50 Critical,
      Add_Expense Entertainment ''Concert'' 300 Low] init_state"
  have ne: "expenses P \<noteq> []" by (simp add: P_def evals)
  have p: "mset (expenses Q) = mset (expenses P)" by (simp add: P_def Q_def evals)
  have k: "filter (\<lambda>p. p \<in> set (map expense_priority (expenses P))) priority_order
      = [Critical, Low]"
    by (simp add: P_def evals priority_order_def)
  from C7_priority_rows_amended [of P] ne
  have t: "(\<exists>rows. priority_summary_tab2 P = Some rows
        \<and> map fst rows = filter (\<lambda>p. p \<in> set (map expense_priority (expenses P))) priority_order)"
    and u: "\<forall>s'. mset (expenses s') = mset (expenses P) \<longrightarrow>
        map fst (rows_of (priority_summary_tab2 s')) = map fst (rows_of (priority_summary_tab2 P))"
    and w: "\<exists>rows. priority_summary_tab1 P = Some rows
        \<and> sorted (rev (map (\<lambda>row. sort_rank (snd row)) rows))"
    by blast+
  from t k have "map fst (rows_of (priority_summary_tab2 P)) = [Critical, Low]"
    by auto
  moreover from u p
  have "map fst (rows_of (priority_summary_tab2 Q)) = map fst (rows_of (priority_summary_tab2 P))"
    by blast
  moreover from w
  have "sorted (rev (map (\<lambda>row. sort_rank (snd row)) (rows_of (priority_summary_tab1 P))))"
    by auto
  ultimately show ?thesis unfolding P_def Q_def by blast
qed




lemma priority_labels_all: "distinct sorted_priority_labels" "p \<in> set sorted_priority_labels"
  by (cases p; simp add: sorted_priority_labels_def)+






subsection \<open>The invariant\<close>

lemma store_inv_init: "store_inv init_state"
  by (simp add: store_inv_def init_state_def)

lemma store_inv_add_income: "store_inv s \<Longrightarrow> store_inv (add_income nm amt s)"
  by (simp add: store_inv_def add_income_def valid_income_def)

lemma store_inv_add_expense: "store_inv s \<Longrightarrow> store_inv (add_expense cat nm amt pri s)"
  by (simp add: store_inv_def add_expense_def valid_expense_def)

lemma store_inv_clear_all: "store_inv (clear_all s)"
  by (simp add: store_inv_def clear_all_def)

lemma store_inv_handle: "store_inv s \<Longrightarrow> store_inv (handle ev s)"
  by (cases ev) (simp_all add: store_inv_add_income store_inv_add_expense store_inv_clear_all)

lemma store_inv_run: "store_inv s \<Longrightarrow> store_inv (run evs s)"
  by (induction evs arbitrary: s) (simp_all add: store_inv_handle)

lemma double_amounts_handle:
  "double_amounts s \<Longrightarrow> double_input ev \<Longrightarrow> double_amounts (handle ev s)"
  by (cases ev) (simp_all add: double_amounts_def add_income_def add_expense_def clear_all_def)

lemma double_amounts_run:
  "double_amounts s \<Longrightarrow> list_all double_input evs \<Longrightarrow> double_amounts (run evs s)"
  by (induction evs arbitrary: s) (simp_all add: double_amounts_handle)

lemma total_income_zero_iff:
  assumes "store_inv s" and "double_amounts s"
  shows "(total_income s = 0) = (income_sources s = [])"
proof (cases "income_sources s = []")
  case True
  then show ?thesis by (simp add: total_income_def py_sum_def)
next
  case False
  from assms have "list_all (\<lambda>a. 0 < a \<and> is_double a) (map income_amount (income_sources s))"
    by (simp add: store_inv_def double_amounts_def valid_income_def list_all_iff)
  with False have "positive_float (total_income s)"
    by (simp only: total_income_amounts) (rule py_sum_positive, simp_all)
  with False show ?thesis by (simp add: positive_float_nonzero)
qed

text \<open>
  C10: the initial state holds only entries with a non-empty name and a strictly positive
  amount; both adds and the clearing keep it so, whatever their arguments; hence every
  state a session reaches does. In such a state, the amounts being doubles as every
  amount of a number input is, the total income is 0 exactly when there is no income
  entry.
\<close>

theorem C10_store_invariant:
  "store_inv init_state
 \<and> (store_inv s \<longrightarrow>
       store_inv (add_income nm amt s) \<and> store_inv (add_expense cat nm amt pri s)
     \<and> store_inv (clear_all s))
 \<and> (store_inv s \<and> double_amounts s \<longrightarrow> (total_income s = 0) = (income_sources s = []))
 \<and> store_inv (run evs init_state)
 \<and> (\<forall>i \<in> set (income_sources (run evs init_state)). income_name i \<noteq> [] \<and> 0 < income_amount i)
 \<and> (\<forall>e \<in> set (expenses (run evs init_state)). expense_name e \<noteq> [] \<and> 0 < expense_amount e)
 \<and> (list_all double_input evs \<longrightarrow>
       (total_income (run evs init_state) = 0) = (income_sources (run evs init_state) = []))"
proof -
  have r: "store_inv (run evs init_state)"
    by (rule store_inv_run [OF store_inv_init])
  then have "\<forall>i \<in> set (income_sources (run evs init_state)). income_name i \<noteq> [] \<and> 0 < income_amount i"
    and "\<forall>e \<in> set (expenses (run evs init_state)). expense_name e \<noteq> [] \<and> 0 < expense_amount e"
    by (simp_all add: store_inv_def list_all_iff valid_income_def valid_expense_def)
  moreover have "double_amounts init_state" by (simp add: double_amounts_def init_state_def)
  then have "list_all double_input evs \<Longrightarrow> double_amounts (run evs init_state)"
    by (rule double_amounts_run)
  ultimately show ?thesis
    using r
    by (simp add: store_inv_init store_inv_add_income store_inv_add_expense store_inv_clear_all
        total_income_zero_iff)
qed

theorem C10_store_invariant_witness:
  "store_inv (add_income ''Bonus'' 100 init_state)
 \<and> store_inv (add_income [] 100 init_state)
 \<and> store_inv (add_expense Other ''Misc'' 0 Low init_state)
 \<and> store_inv (clear_all init_state)
 \<and> store_inv (run
     [Add_Income ''Salary'' 5000, Add_Expense Housing ''Rent'' 1500 Critical,
      Clear_All_Data, Add_Income ''Bonus'' 0, Add_Income ''Bonus'' 100] init_state)
 \<and> total_income (run
     [Add_Income ''Salary'' 5000, Add_Expense Housing ''Rent'' 1500 Critical,
      Clear_All_Data, Add_Income ''Bonus'' 0, Add_Income ''Bonus'' 100] init_state) \<noteq> 0
 \<and> total_income (run [Add_Income ''Salary'' 5000, Clear_All_Data] init_state) = 0"
proof -
  define E where "E = [Add_Income ''Salary'' 5000, Add_Expense Housing ''Rent'' 1500 Critical,
      Clear_All_Data, Add_Income ''Bonus'' 0, Add_Income ''Bonus'' 100]"
  define F where "F = [Add_Income ''Salary'' 5000, Clear_All_Data]"
  have de: "list_all double_input E" and df: "list_all double_input F"
    by (simp_all add: E_def F_def is_double_def round_double_values)
  have e: "income_sources (run E init_state) \<noteq> []"
    by (simp add: E_def evals clear_all_def)
  have f: "income_sources (run F init_state) = []"
    by (simp add: F_def evals clear_all_def)
  note a = C10_store_invariant [of init_state "''Bonus''" 100 Other Low E]
  note b = C10_store_invariant [of init_state "[]" 100 Other Low F]
  note c = C10_store_invariant [of init_state "''Misc''" 0 Other Low F]
  from a have i: "store_inv init_state" by blast
  from a i have "store_inv (add_income ''Bonus'' 100 init_state)" by blast
  moreover from b i have "store_inv (add_income [] 100 init_state)" by blast
  moreover from c i have "store_inv (add_expense Other ''Misc'' 0 Low init_state)" by blast
  moreover from a i have "store_inv (clear_all init_state)" by blast
  moreover from a have "store_inv (run E init_state)" by blast
  moreover from a de e have "total_income (run E init_state) \<noteq> 0" by blast
  moreover from b df f have "total_income (run F init_state) = 0" by blast
  ultimately show ?thesis unfolding E_def F_def by blast
qed

end
